theory Spec2Isabelle
  imports Main "HOL-Library.Char_ord" "HOL-Library.List_Lexorder" "HOL-Library.Multiset"
begin

section \<open>Strings\<close>

text \<open>
  Documents and values are \<open>string\<close>s (lists of characters). Python compares strings
  lexicographically by code point; \<open>Char_ord\<close> and \<open>List_Lexorder\<close> give the same order
  on \<open>string\<close>.
\<close>

definition NL :: char where "NL = CHR 0x0A"
definition TAB :: char where "TAB = CHR 0x09"
definition DQ :: char where "DQ = CHR 0x22"
definition SQ :: char where "SQ = CHR 0x27"

text \<open>\<open>sep.join(xs)\<close>\<close>

fun join :: "string \<Rightarrow> string list \<Rightarrow> string" where
  "join sep [] = []"
| "join sep [x] = x"
| "join sep (x # y # ys) = x @ sep @ join sep (y # ys)"

section \<open>Crates\<close>

text \<open>
  The two variants of \<open>Crate\<close> with the attributes that \<open>ebuild.py\<close> reads:
  \<open>name\<close> and \<open>filename\<close> of every crate, \<open>crate_entry\<close> of a file crate. What a
  crate's accessors read from the download directory is part of \<open>distdir\<close> below.
\<close>

datatype Crate =
    is_FileCrate: FileCrate (name: string) (filename: string) (crate_entry: string)
  | is_GitCrate: GitCrate (name: string) (filename: string) (repository: string)

section \<open>The CRATES value\<close>

text \<open>The sorted generator expression of \<open>get_CRATES\<close>: one tab-indented entry per file crate.\<close>

definition CRATES_entries :: "Crate list \<Rightarrow> string list" where
  "CRATES_entries crates = sort (map (\<lambda>c. TAB # crate_entry c) (filter is_FileCrate crates))"

definition get_CRATES :: "Crate list \<Rightarrow> string" where
  "get_CRATES crates =
     (if crates = [] then [NL]
      else [NL] @ join [NL] (CRATES_entries crates) @ [NL])"


section \<open>Errors and decimal numbers\<close>

text \<open>
  Every exception is a value. \<open>RuntimeError\<close> carries its message; \<open>ExpressionError\<close> is
  what the licence library raises for a string it cannot parse, \<open>AttributeError\<close> what
  calling \<open>simplify\<close> on \<open>None\<close> raises, and \<open>LicenseError\<close> stands for a failure of the
  SPDX-to-ebuild translation.
\<close>

datatype error =
    RuntimeError string
  | ExpressionError string
  | AttributeError
  | LicenseError string

text \<open>\<open>str(n)\<close> for a non-negative integer.\<close>

fun str_nat :: "nat \<Rightarrow> string" where
  "str_nat n =
     (if n < 10 then [''0123456789'' ! n]
      else str_nat (n div 10) @ [''0123456789'' ! (n mod 10)])"

declare str_nat.simps [simp del]

section \<open>The GIT\_CRATES block\<close>

text \<open>
  \<open>shlex.quote\<close>: the empty string becomes two single quotes; a string of safe characters
  only (ASCII letters, digits, underscore and \<open>@%+=:,./-\<close>) is returned as it is; any other
  string is wrapped in single quotes, each single quote inside written as \<open>'"'"'\<close>.
\<close>

definition shlex_safe :: "char \<Rightarrow> bool" where
  "shlex_safe c =
     ((CHR ''a'' \<le> c \<and> c \<le> CHR ''z'') \<or> (CHR ''A'' \<le> c \<and> c \<le> CHR ''Z'') \<or>
      (CHR ''0'' \<le> c \<and> c \<le> CHR ''9'') \<or> c \<in> set ''_@%+=:,./-'')"

definition shlex_quote :: "string \<Rightarrow> string" where
  "shlex_quote s =
     (if s = [] then [SQ, SQ]
      else if list_all shlex_safe s then s
      else [SQ] @ concat (map (\<lambda>c. if c = SQ then [SQ, DQ, SQ, DQ, SQ] else [c]) s) @ [SQ])"

text \<open>
  What the accessors of a crate read from the download directory: the crate's directory
  inside its archive, the archive member \<open>Cargo.toml\<close> of that directory as parsed
  package metadata (\<open>None\<close> when \<open>extractfile\<close> returns \<open>None\<close>), and the entry string of
  a git crate.
\<close>

record PackageMetadata =
  license :: "string option"
  license_file :: "string option"
  description :: "string option"
  homepage :: "string option"

record distdir =
  get_package_directory :: "Crate \<Rightarrow> string"
  cargo_toml :: "Crate \<Rightarrow> PackageMetadata option"
  get_git_crate_entry :: "Crate \<Rightarrow> string"

definition GIT_CRATES_entries :: "Crate list \<Rightarrow> distdir \<Rightarrow> string list" where
  "GIT_CRATES_entries crates dd =
     sort (map (\<lambda>c. [TAB] @ ''['' @ name c @ '']='' @ shlex_quote (get_git_crate_entry dd c))
               (filter is_GitCrate crates))"

definition get_GIT_CRATES :: "Crate list \<Rightarrow> distdir \<Rightarrow> string" where
  "get_GIT_CRATES crates dd =
     (let values = join [NL] (GIT_CRATES_entries crates dd) in
      if values \<noteq> [] then [NL, NL] @ ''declare -A GIT_CRATES=('' @ [NL] @ values @ [NL] @ '')''
      else [])"

section \<open>Licences\<close>

text \<open>
  The licence expression library and the two helpers \<open>spdx_to_ebuild\<close> and
  \<open>format_license_var\<close> are not part of \<open>ebuild.py\<close>; they are parameters, together with
  the order in which Python iterates over a set of strings (\<open>set_iter\<close>, applied to the
  distinct elements in insertion order), the program's version string and today's year.
  \<open>parse\<close> is \<open>spdx.parse(s, strict=True)\<close>: it raises, returns \<open>None\<close> or an expression.
\<close>

record 'e externals =
  parse :: "string \<Rightarrow> error + 'e option"
  simplify :: "'e \<Rightarrow> 'e"
  spdx_to_ebuild :: "'e \<Rightarrow> error + string"
  format_license_var :: "string \<Rightarrow> string \<Rightarrow> string"
  set_iter :: "string list \<Rightarrow> string list"
  version :: string
  today_year :: nat

fun startswith :: "string \<Rightarrow> string \<Rightarrow> bool" where
  "startswith [] s = True"
| "startswith (p # ps) [] = False"
| "startswith (p # ps) (c # cs) = (p = c \<and> startswith ps cs)"

definition get_package_LICENSE :: "'e externals \<Rightarrow> string option \<Rightarrow> error + string" where
  "get_package_LICENSE ext license_str =
     (case license_str of
        None \<Rightarrow> Inr []
      | Some s \<Rightarrow>
          (case parse ext s of
             Inl e \<Rightarrow> Inl e
           | Inr None \<Rightarrow> Inl AttributeError
           | Inr (Some parsed) \<Rightarrow>
               (case spdx_to_ebuild ext (simplify ext parsed) of
                  Inl e \<Rightarrow> Inl e
                | Inr v \<Rightarrow> Inr (format_license_var ext v (''LICENSE='' @ [DQ])))))"

text \<open>
  \<open>get_license_from_crate\<close>; the two warnings it logs do not change its result and are
  left out.
\<close>

definition get_license_from_crate :: "Crate \<Rightarrow> distdir \<Rightarrow> error + string option" where
  "get_license_from_crate crate dd =
     (case cargo_toml dd crate of
        None \<Rightarrow> Inl (RuntimeError (get_package_directory dd crate @ ''/Cargo.toml not found in ''
                                    @ filename crate))
      | Some crate_metadata \<Rightarrow> Inr (license crate_metadata))"

text \<open>The generator inside \<open>set(...)\<close>: one contribution per crate, in crate order.\<close>

fun crate_license_list ::
  "Crate list \<Rightarrow> distdir \<Rightarrow> (string \<rightharpoonup> string) \<Rightarrow> error + string option list" where
  "crate_license_list [] dd license_overrides = Inr []"
| "crate_license_list (crate # crates) dd license_overrides =
     (case (case license_overrides (name crate) of
              None \<Rightarrow> get_license_from_crate crate dd
            | Some l \<Rightarrow> Inr (Some l)) of
        Inl e \<Rightarrow> Inl e
      | Inr l \<Rightarrow>
          (case crate_license_list crates dd license_overrides of
             Inl e \<Rightarrow> Inl e
           | Inr ls \<Rightarrow> Inr (l # ls)))"

definition combine_licenses :: "string list \<Rightarrow> string" where
  "combine_licenses crate_licenses = join '' AND '' (map (\<lambda>x. ''( '' @ x @ '' )'') crate_licenses)"

definition get_crate_LICENSE ::
  "'e externals \<Rightarrow> Crate list \<Rightarrow> distdir \<Rightarrow> (string \<rightharpoonup> string) \<Rightarrow> error + string" where
  "get_crate_LICENSE ext crates dd license_overrides =
     (case crate_license_list crates dd license_overrides of
        Inl e \<Rightarrow> Inl e
      | Inr ls \<Rightarrow>
          (let crate_licenses = set_iter ext (remdups (map the (filter (\<lambda>l. l \<noteq> None) ls)));
               combined_license = combine_licenses crate_licenses
           in case parse ext combined_license of
                Inl e \<Rightarrow> Inl e
              | Inr None \<Rightarrow> Inr []
              | Inr (Some parsed_license) \<Rightarrow>
                  (case spdx_to_ebuild ext (simplify ext parsed_license) of
                     Inl e \<Rightarrow> Inl e
                   | Inr v \<Rightarrow>
                       (let crate_licenses_str = format_license_var ext v (''LICENSE+='' @ [DQ] @ '' '')
                        in Inr (if startswith [NL] crate_licenses_str then crate_licenses_str
                                else '' '' @ crate_licenses_str)))))"

section \<open>Escaping helpers\<close>

text \<open>
  A character is a code point below 256. \<open>isspace\<close> holds the whitespace code points of
  that range, the ones \<open>str.split\<close> splits at and \<open>\s\<close> matches.
\<close>

definition isspace :: "char \<Rightarrow> bool" where
  "isspace c = ((of_char c :: nat) \<in> {9, 10, 11, 12, 13, 28, 29, 30, 31, 32, 133, 160})"

text \<open>\<open>value.split()\<close>, with the word read so far as accumulator.\<close>

fun split_ws :: "string \<Rightarrow> string \<Rightarrow> string list" where
  "split_ws w [] = (if w = [] then [] else [w])"
| "split_ws w (c # cs) =
     (if isspace c then (if w = [] then split_ws [] cs else w # split_ws [] cs)
      else split_ws (w @ [c]) cs)"

definition collapse_whitespace :: "string \<Rightarrow> string" where
  "collapse_whitespace v = join '' '' (split_ws [] v)"

definition dquote_special :: "char \<Rightarrow> bool" where
  "dquote_special c = (c = CHR ''$'' \<or> c = CHR 0x60 \<or> c = DQ \<or> c = CHR 0x5C)"

definition bash_dquote_escape :: "string \<Rightarrow> string" where
  "bash_dquote_escape v = concat (map (\<lambda>c. if dquote_special c then [CHR 0x5C, c] else [c]) v)"

text \<open>
  \<open>urllib.parse.quote_plus\<close> of a single character that is special or whitespace: a space
  becomes \<open>+\<close>, any other character the percent-encoding of its UTF-8 bytes.
\<close>

definition hex2 :: "nat \<Rightarrow> string" where
  "hex2 n = [''0123456789ABCDEF'' ! (n div 16), ''0123456789ABCDEF'' ! (n mod 16)]"

definition quote_plus_char :: "char \<Rightarrow> string" where
  "quote_plus_char c =
     (let n = (of_char c :: nat) in
      if c = CHR '' '' then ''+''
      else if n < 128 then ''%'' @ hex2 n
      else ''%'' @ hex2 (192 + n div 64) @ ''%'' @ hex2 (128 + n mod 64))"

definition url_dquote_escape :: "string \<Rightarrow> string" where
  "url_dquote_escape v =
     concat (map (\<lambda>c. if dquote_special c \<or> isspace c then quote_plus_char c else [c]) v)"

section \<open>Rendering an ebuild\<close>

text \<open>
  The formatted template, cut at the value of CRATES: \<open>template_head\<close> is the text up to
  and including the opening quote of CRATES, \<open>template_rest\<close> the text from its closing
  quote on. \<open>crate_tarball\<close> is the file name of the tarball path, when one is given.
\<close>

definition template_head :: "nat \<Rightarrow> string \<Rightarrow> string" where
  "template_head year prog_version =
     ''# Copyright '' @ str_nat year @ '' Gentoo Authors'' @ [NL] @
     ''# Distributed under the terms of the GNU General Public License v2'' @ [NL] @
     [NL] @
     ''# Autogenerated by pycargoebuild '' @ prog_version @ [NL] @
     [NL] @
     ''EAPI=8'' @ [NL] @
     [NL] @
     ''CRATES='' @ [DQ]"

definition EBUILD_TEMPLATE_CRATE_TARBALL :: "string \<Rightarrow> string" where
  "EBUILD_TEMPLATE_CRATE_TARBALL tarball_name =
     [NL] @
     ''if [[ ${PKGBUMPING} != ${PVR} ]]; then'' @ [NL] @
     [TAB] @ ''SRC_URI+='' @ [DQ] @ [NL] @
     [TAB, TAB] @ tarball_name @ [NL] @
     [TAB, DQ] @ [NL] @
     ''fi''"

definition EBUILD_TEMPLATE_CRATE_LICENSE :: "string \<Rightarrow> string" where
  "EBUILD_TEMPLATE_CRATE_LICENSE crate_licenses =
     ''# Dependent crate licenses'' @ [NL] @
     ''LICENSE+='' @ [DQ] @ crate_licenses @ [DQ] @ [NL]"

definition EBUILD_TEMPLATE_END :: string where
  "EBUILD_TEMPLATE_END =
     ''SLOT='' @ [DQ] @ ''0'' @ [DQ] @ [NL] @
     ''KEYWORDS='' @ [DQ] @ ''~amd64'' @ [DQ] @ [NL]"

definition template_rest ::
  "bool \<Rightarrow> string \<Rightarrow> string \<Rightarrow> string \<Rightarrow> string \<Rightarrow> string \<Rightarrow> string \<Rightarrow> string" where
  "template_rest crate_license opt_git_crates descr home opt_crate_tarball pkg_license
       crate_licenses =
     [DQ] @ opt_git_crates @ [NL] @
     [NL] @
     ''inherit cargo'' @ [NL] @
     [NL] @
     ''DESCRIPTION='' @ [DQ] @ descr @ [DQ] @ [NL] @
     ''HOMEPAGE='' @ [DQ] @ home @ [DQ] @ [NL] @
     ''SRC_URI='' @ [DQ] @ [NL] @
     [TAB] @ ''${CARGO_CRATE_URIS}'' @ [NL] @
     [DQ] @ opt_crate_tarball @ [NL] @
     [NL] @
     ''LICENSE='' @ [DQ] @ pkg_license @ [DQ] @ [NL] @
     (if crate_license then EBUILD_TEMPLATE_CRATE_LICENSE crate_licenses else []) @
     EBUILD_TEMPLATE_END"

text \<open>The CRATES value of both entry points: that of no crates when a tarball is given.\<close>

definition CRATES_value :: "Crate list \<Rightarrow> string option \<Rightarrow> string" where
  "CRATES_value crates crate_tarball = get_CRATES (if crate_tarball = None then crates else [])"

text \<open>
  \<open>get_ebuild\<close>. The arguments of \<open>format\<close> are evaluated in the order they are written,
  so the crate licences are computed (and may raise) before the package licence, and also
  when \<open>crate_license\<close> is off.
\<close>

definition get_ebuild ::
  "'e externals \<Rightarrow> PackageMetadata \<Rightarrow> Crate list \<Rightarrow> distdir \<Rightarrow> bool \<Rightarrow> string option \<Rightarrow>
     (string \<rightharpoonup> string) \<Rightarrow> error + string" where
  "get_ebuild ext pkg_meta crates dd crate_license crate_tarball license_overrides =
     (case get_crate_LICENSE ext crates dd license_overrides of
        Inl e \<Rightarrow> Inl e
      | Inr crate_licenses \<Rightarrow>
          (case get_package_LICENSE ext (license pkg_meta) of
             Inl e \<Rightarrow> Inl e
           | Inr pkg_license \<Rightarrow>
               Inr (template_head (today_year ext) (version ext) @
                    CRATES_value crates crate_tarball @
                    template_rest crate_license
                      (get_GIT_CRATES crates dd)
                      (bash_dquote_escape (collapse_whitespace
                         (case description pkg_meta of None \<Rightarrow> [] | Some d \<Rightarrow> d)))
                      (url_dquote_escape (case homepage pkg_meta of None \<Rightarrow> [] | Some h \<Rightarrow> h))
                      (case crate_tarball of None \<Rightarrow> []
                       | Some t \<Rightarrow> EBUILD_TEMPLATE_CRATE_TARBALL t)
                      pkg_license crate_licenses)))"

section \<open>The anchored patterns\<close>

text \<open>
  A match: the number of characters it spans and the groups \<open>start\<close>, \<open>delim\<close> and \<open>ws\<close>
  (a pattern without a group leaves it empty; every substitution below runs with a
  pattern that has the groups it reads). A pattern is a function of the position: whether
  it is at the start of a line (\<open>^\<close> under \<open>MULTILINE\<close>) and the text from there on.
  Every pattern here starts with a literal character, so no match is empty.
\<close>

record rmatch =
  m_len :: nat
  g_start :: string
  g_delim :: string
  g_ws :: string

type_synonym pattern = "bool \<Rightarrow> string \<Rightarrow> rmatch option"

text \<open>\<open>$\<close> under \<open>MULTILINE\<close>: at the end of the text or before a newline.\<close>

fun at_eol :: "string \<Rightarrow> bool" where
  "at_eol [] = True"
| "at_eol (c # cs) = (c = NL)"

text \<open>
  \<open>.*?q$\<close> under \<open>DOTALL\<close>: the length of the body, which the non-greedy star makes the
  shortest one that is followed by \<open>q\<close> at the end of a line.
\<close>

fun lazy_body :: "char \<Rightarrow> string \<Rightarrow> nat option" where
  "lazy_body q [] = None"
| "lazy_body q (c # cs) =
     (if c = q \<and> at_eol cs then Some 0 else map_option Suc (lazy_body q cs))"

text \<open>\<open>^lit(['"]).*?\1$\<close>: the quote character and the length of the body.\<close>

definition match_assignment :: "string \<Rightarrow> bool \<Rightarrow> string \<Rightarrow> (char \<times> nat) option" where
  "match_assignment lit bol s =
     (if bol \<and> startswith lit s then
        (case drop (length lit) s of
           [] \<Rightarrow> None
         | q # r \<Rightarrow>
             if q = SQ \<or> q = DQ then map_option (\<lambda>k. (q, k)) (lazy_body q r) else None)
      else None)"

definition CRATES_RE :: pattern where
  "CRATES_RE bol s =
     map_option (\<lambda>(q, k). \<lparr>m_len = length ''CRATES='' + 1 + k + 1,
                            g_start = ''CRATES='' @ [q], g_delim = [q], g_ws = []\<rparr>)
       (match_assignment ''CRATES='' bol s)"

definition CRATE_LICENSE_lit :: string where
  "CRATE_LICENSE_lit = ''# Dependent crate licenses'' @ [NL] @ ''LICENSE+=''"

definition CRATE_LICENSE_RE :: pattern where
  "CRATE_LICENSE_RE bol s =
     map_option (\<lambda>(q, k). \<lparr>m_len = length CRATE_LICENSE_lit + 1 + k + 1,
                            g_start = CRATE_LICENSE_lit @ [q], g_delim = [q], g_ws = []\<rparr>)
       (match_assignment CRATE_LICENSE_lit bol s)"

text \<open>The same match as \<open>CRATES_RE\<close>; \<open>start\<close> is all of it and \<open>delim\<close> is empty.\<close>

definition GIT_CRATES_APPEND_RE :: pattern where
  "GIT_CRATES_APPEND_RE bol s =
     map_option (\<lambda>(q, k). \<lparr>m_len = length ''CRATES='' + 1 + k + 1,
                            g_start = take (length ''CRATES='' + 1 + k + 1) s,
                            g_delim = [], g_ws = []\<rparr>)
       (match_assignment ''CRATES='' bol s)"

text \<open>
  \<open>(\n\n?)declare -A GIT_CRATES=[(].*?[)]$\<close>: \<open>match_declare ws r\<close> is the match of the
  part after the group \<open>ws\<close>. The optional second newline is tried first and given up when
  the rest does not match.
\<close>

definition match_declare :: "string \<Rightarrow> string \<Rightarrow> rmatch option" where
  "match_declare ws r =
     (if startswith ''declare -A GIT_CRATES=('' r then
        map_option (\<lambda>k. \<lparr>m_len = length ws + length ''declare -A GIT_CRATES=('' + k + 1,
                          g_start = [], g_delim = [], g_ws = ws\<rparr>)
          (lazy_body (CHR '')'') (drop (length ''declare -A GIT_CRATES=('') r))
      else None)"

definition GIT_CRATES_RE :: pattern where
  "GIT_CRATES_RE bol s =
     (case s of
        [] \<Rightarrow> None
      | c # r \<Rightarrow>
          if c \<noteq> NL then None
          else (case r of
                  [] \<Rightarrow> match_declare [NL] r
                | d # r2 \<Rightarrow>
                    if d = NL then
                      (case match_declare [NL, NL] r2 of
                         Some m \<Rightarrow> Some m
                       | None \<Rightarrow> match_declare [NL] r)
                    else match_declare [NL] r))"

section \<open>Substitution\<close>

text \<open>
  \<open>regex.sub(repl, text)\<close> with a callable \<open>repl\<close>: the text is scanned from the left; where
  the pattern matches, \<open>repl\<close> is called with the match and the scan goes on after it,
  elsewhere the character is copied. The result is the new text and the number of calls,
  which is what the substitution objects count. An exception of \<open>repl\<close> ends the scan.
\<close>

fun re_sub :: "pattern \<Rightarrow> (rmatch \<Rightarrow> error + string) \<Rightarrow> bool \<Rightarrow> string \<Rightarrow> error + string \<times> nat" where
  "re_sub re repl bol [] = Inr ([], 0)"
| "re_sub re repl bol (c # cs) =
     (case re bol (c # cs) of
        None \<Rightarrow>
          (case re_sub re repl (c = NL) cs of
             Inl e \<Rightarrow> Inl e
           | Inr (out, n) \<Rightarrow> Inr (c # out, n))
      | Some m \<Rightarrow>
          (case repl m of
             Inl e \<Rightarrow> Inl e
           | Inr r \<Rightarrow>
               (case re_sub re repl (last (c # take (m_len m - 1) cs) = NL)
                       (drop (m_len m - 1) cs) of
                  Inl e \<Rightarrow> Inl e
                | Inr (out, n) \<Rightarrow> Inr (r @ out, Suc n))))"

text \<open>
  \<open>CountingSubst.__call__\<close> and \<open>GitCratesSubst.__call__\<close>; \<open>repl\<close> is the outcome of calling
  the object's \<open>repl\<close>. The count is returned by \<open>re_sub\<close>.
\<close>

definition CountingSubst :: "error + string \<Rightarrow> rmatch \<Rightarrow> error + string" where
  "CountingSubst repl m =
     (case repl of Inl e \<Rightarrow> Inl e | Inr r \<Rightarrow> Inr (g_start m @ r @ g_delim m))"

definition lstrip :: "string \<Rightarrow> string" where
  "lstrip s = dropWhile isspace s"

definition GitCratesSubst :: "error + string \<Rightarrow> rmatch \<Rightarrow> error + string" where
  "GitCratesSubst repl m =
     (case repl of
        Inl e \<Rightarrow> Inl e
      | Inr r \<Rightarrow> (if lstrip r \<noteq> [] then Inr (g_ws m @ lstrip r) else Inr []))"

definition assert_count :: "nat \<Rightarrow> string \<Rightarrow> nat \<Rightarrow> error + unit" where
  "assert_count self_count desc expected =
     (if self_count \<noteq> expected then
        Inl (RuntimeError (desc @ '' matched '' @ str_nat self_count @ '' times, '' @
                           str_nat expected @ '' expected''))
      else Inr ())"

section \<open>Updating an ebuild\<close>

definition update_ebuild ::
  "'e externals \<Rightarrow> string \<Rightarrow> PackageMetadata \<Rightarrow> Crate list \<Rightarrow> distdir \<Rightarrow> bool \<Rightarrow>
     string option \<Rightarrow> (string \<rightharpoonup> string) \<Rightarrow> error + string" where
  "update_ebuild ext ebuild pkg_meta crates dd crate_license crate_tarball license_overrides =
     (case re_sub CRATES_RE (CountingSubst (Inr (CRATES_value crates crate_tarball))) True ebuild of
        Inl e \<Rightarrow> Inl e
      | Inr (ebuild1, crates_count) \<Rightarrow>
     (case re_sub GIT_CRATES_RE (GitCratesSubst (Inr (get_GIT_CRATES crates dd))) True ebuild1 of
        Inl e \<Rightarrow> Inl e
      | Inr (ebuild2, git_crates_count) \<Rightarrow>
     (case re_sub CRATE_LICENSE_RE
             (CountingSubst (get_crate_LICENSE ext crates dd license_overrides)) True ebuild2 of
        Inl e \<Rightarrow> Inl e
      | Inr (ebuild3, crate_license_count) \<Rightarrow>
     (case assert_count crates_count ''CRATES='' 1 of
        Inl e \<Rightarrow> Inl e
      | Inr _ \<Rightarrow>
     (case assert_count crate_license_count ''Crate LICENSE+= (with marker comment)''
             (if crate_license then 1 else 0) of
        Inl e \<Rightarrow> Inl e
      | Inr _ \<Rightarrow>
          (if git_crates_count = 0 then
             (let git_crates = get_GIT_CRATES crates dd in
              if git_crates \<noteq> [] then
                (case re_sub GIT_CRATES_APPEND_RE (CountingSubst (Inr git_crates)) True ebuild3 of
                   Inl e \<Rightarrow> Inl e
                 | Inr (ebuild4, append_count) \<Rightarrow>
                     (case assert_count append_count ''CRATES= (while appending GIT_CRATES=)'' 1 of
                        Inl e \<Rightarrow> Inl e
                      | Inr _ \<Rightarrow> Inr ebuild4))
              else Inr ebuild3)
           else
             (case assert_count git_crates_count ''GIT_CRATES='' 1 of
                Inl e \<Rightarrow> Inl e
              | Inr _ \<Rightarrow> Inr ebuild3)))))))"

section \<open>Reference notions for the patterns\<close>

text \<open>
  The spec's wording of the body match, a greedy one: the longest body that is followed by
  the closing delimiter at the end of a line.
\<close>


fun greedy_body :: "char \<Rightarrow> string \<Rightarrow> nat option" where
  "greedy_body q [] = None"
| "greedy_body q (c # cs) =
     (case greedy_body q cs of
        Some k \<Rightarrow> Some (Suc k)
      | None \<Rightarrow> if c = q \<and> at_eol cs then Some 0 else None)"

text \<open>
  \<open>first_close q s k\<close>: position \<open>k\<close> of \<open>s\<close> is the first occurrence of \<open>q\<close> that stands at
  the end of a line or of the text.
\<close>

definition first_close :: "char \<Rightarrow> string \<Rightarrow> nat \<Rightarrow> bool" where
  "first_close q s k =
     (k < length s \<and> s ! k = q \<and> at_eol (drop (Suc k) s) \<and>
      (\<forall>j<k. \<not> (s ! j = q \<and> at_eol (drop (Suc j) s))))"

section \<open>Counting matches\<close>

text \<open>
  The number of matches the scan of \<open>re_sub\<close> finds in a text: the value of the counter of
  a substitution object after \<open>regex.sub\<close>.
\<close>


fun match_count :: "pattern \<Rightarrow> bool \<Rightarrow> string \<Rightarrow> nat" where
  "match_count re bol [] = 0"
| "match_count re bol (c # cs) =
     (case re bol (c # cs) of
        None \<Rightarrow> match_count re (c = NL) cs
      | Some m \<Rightarrow>
          Suc (match_count re (last (c # take (m_len m - 1) cs) = NL) (drop (m_len m - 1) cs)))"


section \<open>Example inputs\<close>

text \<open>
  A small licence library for the examples. It knows conjunctions only: an expression is
  the list of the words of its text other than parentheses and \<open>AND\<close>, the empty text
  parses to \<open>None\<close>, simplifying sorts the words and drops repetitions, and the words
  are their own translation. The set of strings is iterated in insertion order.
\<close>

definition license_words :: "string \<Rightarrow> string list" where
  "license_words s = filter (\<lambda>w. w \<notin> set [''('', '')'', ''AND'']) (split_ws [] s)"

definition example_ext :: "string list externals" where
  "example_ext =
     \<lparr>parse = (\<lambda>s. if s = [] then Inr None else Inr (Some (license_words s))),
      simplify = (\<lambda>e. sort (remdups e)),
      spdx_to_ebuild = (\<lambda>e. Inr (join '' '' e)),
      format_license_var = (\<lambda>v prefix. v), set_iter = (\<lambda>xs. xs),
      version = ''0.6'', today_year = 2023\<rparr>"

definition example_pkg_meta :: PackageMetadata where
  "example_pkg_meta =
     \<lparr>license = Some ''MIT'', license_file = None, description = Some ''An  example'',
      homepage = Some ''https://example.org''\<rparr>"

text \<open>
  A download directory whose archives hold a manifest: crate \<open>b\<close> is under
  \<open>Apache-2.0\<close>, crate \<open>u\<close> names a licence file and no licence, every other crate is
  under \<open>MIT\<close>.
\<close>

definition example_distdir :: distdir where
  "example_distdir =
     \<lparr>get_package_directory = name,
      cargo_toml = (\<lambda>c. Some \<lparr>license = (if name c = ''u'' then None
                                           else if name c = ''b'' then Some ''Apache-2.0''
                                           else Some ''MIT''),
                                license_file = (if name c = ''u'' then Some ''COPYING'' else None),
                                description = None, homepage = None\<rparr>),
      get_git_crate_entry = (\<lambda>c. repository c @ '';0123abc;'' @ name c)\<rparr>"

text \<open>A download directory whose archives have no regular file \<open>Cargo.toml\<close>.\<close>

definition broken_distdir :: distdir where
  "broken_distdir =
     \<lparr>get_package_directory = name, cargo_toml = (\<lambda>c. None),
      get_git_crate_entry = repository\<rparr>"

section \<open>Notions for the licence properties\<close>


text \<open>
  Modelled from the spec: the licence library is not part of the sources. The spec says
  that parsing an empty combined string yields an empty result.
\<close>

definition parses_empty :: "'e externals \<Rightarrow> bool" where
  "parses_empty ext = (parse ext [] = Inr None)"


text \<open>Iterating over a set of strings yields each of its elements once.\<close>

definition set_iteration :: "(string list \<Rightarrow> string list) \<Rightarrow> bool" where
  "set_iteration f = (\<forall>xs. distinct xs \<longrightarrow> mset (f xs) = mset xs)"


text \<open>
  The rest of \<open>get_crate_LICENSE\<close> after parsing and simplifying: translation, formatting
  and the leading space.
\<close>

definition render_simplified :: "'e externals \<Rightarrow> error + 'e option \<Rightarrow> error + string" where
  "render_simplified ext r =
     (case r of
        Inl e \<Rightarrow> Inl e
      | Inr None \<Rightarrow> Inr []
      | Inr (Some simplified) \<Rightarrow>
          (case spdx_to_ebuild ext simplified of
             Inl e \<Rightarrow> Inl e
           | Inr v \<Rightarrow>
               (let crate_licenses_str = format_license_var ext v (''LICENSE+='' @ [DQ] @ '' '')
                in Inr (if startswith [NL] crate_licenses_str then crate_licenses_str
                        else '' '' @ crate_licenses_str))))"

text \<open>The licence strings that are combined: the set without \<open>None\<close>, as a distinct list.\<close>

definition contributed :: "string option list \<Rightarrow> string list" where
  "contributed ls = remdups (map the (filter (\<lambda>l. l \<noteq> None) ls))"

section \<open>The three substitutions of an update\<close>

text \<open>
  The passes of the loop in \<open>update_ebuild\<close>, each with its pattern and substitution
  object, named for the statements below.
\<close>

definition sub_CRATES :: "Crate list \<Rightarrow> string option \<Rightarrow> string \<Rightarrow> error + string \<times> nat" where
  "sub_CRATES crates crate_tarball ebuild =
     re_sub CRATES_RE (CountingSubst (Inr (CRATES_value crates crate_tarball))) True ebuild"

definition sub_GIT_CRATES :: "Crate list \<Rightarrow> distdir \<Rightarrow> string \<Rightarrow> error + string \<times> nat" where
  "sub_GIT_CRATES crates dd ebuild =
     re_sub GIT_CRATES_RE (GitCratesSubst (Inr (get_GIT_CRATES crates dd))) True ebuild"



section \<open>Example documents\<close>








section \<open>Properties of the CRATES value\<close>

lemma sorted_map_tl_Cons:
  "sorted (map ((#) c) xs) \<Longrightarrow> sorted (xs :: string list)"
  by (induction xs) auto

lemma all_Cons_map:
  "set zs \<subseteq> range ((#) c) \<Longrightarrow> \<exists>ys. zs = map ((#) c) ys"
proof (induction zs)
  case Nil
  then show ?case by simp
next
  case (Cons z zs)
  then obtain ys where "zs = map ((#) c) ys" by auto
  moreover obtain y where "z = c # y" using Cons.prems by auto
  ultimately have "z # zs = map ((#) c) (y # ys)" by simp
  then show ?case by (rule exI [of _ "y # ys"])
qed

lemma sort_map_Cons_tl:
  "map tl (sort (map ((#) c) (xs :: string list))) = sort xs"
proof -
  have "set (sort (map ((#) c) xs)) \<subseteq> range ((#) c)" by auto
  then have "\<exists>ys. sort (map ((#) c) xs) = map ((#) c) ys" by (rule all_Cons_map)
  then obtain ys where ys: "sort (map ((#) c) xs) = map ((#) c) ys" by blast
  have "sorted (map ((#) c) ys)" using ys by (metis sorted_sort)
  then have s: "sorted ys" by (rule sorted_map_tl_Cons)
  have "mset ys = mset (map tl (map ((#) c) ys))" by (simp add: comp_def)
  also have "\<dots> = mset (map tl (sort (map ((#) c) xs)))" using ys by simp
  also have "\<dots> = mset (map tl (map ((#) c) xs))" by (simp only: mset_map mset_sort)
  also have "\<dots> = mset xs" by (simp add: comp_def)
  finally have "ys = sort xs" using s by (metis properties_for_sort)
  moreover have "map tl (map ((#) c) ys) = ys" by (simp add: comp_def)
  ultimately show ?thesis using ys by simp
qed

text \<open>
  C7. For all crate lists, the value of \<open>get_CRATES\<close> is the single newline for the
  empty list and otherwise a newline, the entries joined by newlines, and a newline. The
  entries are the tab-indented entry strings of the file crates, one per file crate, and
  they are sorted lexicographically, both as rendered (with the leading tab) and as the
  crates' own entry strings. The value is the same for every permutation of the crate
  list.
\<close>

theorem get_CRATES_sorted_permutation:
  "(\<exists>es. get_CRATES crates = (if crates = [] then [NL] else [NL] @ join [NL] es @ [NL]) \<and>
         sorted es \<and> sorted (map tl es) \<and>
         mset es = mset (map (\<lambda>c. TAB # crate_entry c) (filter is_FileCrate crates)) \<and>
         mset (map tl es) = mset (map crate_entry (filter is_FileCrate crates))) \<and>
   (mset crates' = mset crates \<longrightarrow> get_CRATES crates' = get_CRATES crates)"
proof (intro conjI impI)
  let ?es = "CRATES_entries crates"
  have t: "map tl ?es = sort (map crate_entry (filter is_FileCrate crates))"
  proof -
    have "map (\<lambda>c. TAB # crate_entry c) (filter is_FileCrate crates) =
          map ((#) TAB) (map crate_entry (filter is_FileCrate crates))" by simp
    then show ?thesis unfolding CRATES_entries_def by (simp only: sort_map_Cons_tl)
  qed
  show "\<exists>es. get_CRATES crates = (if crates = [] then [NL] else [NL] @ join [NL] es @ [NL]) \<and>
         sorted es \<and> sorted (map tl es) \<and>
         mset es = mset (map (\<lambda>c. TAB # crate_entry c) (filter is_FileCrate crates)) \<and>
         mset (map tl es) = mset (map crate_entry (filter is_FileCrate crates))"
  proof (intro exI [of _ ?es] conjI)
    show "get_CRATES crates = (if crates = [] then [NL] else [NL] @ join [NL] ?es @ [NL])"
      by (simp add: get_CRATES_def)
    show "sorted ?es" by (simp add: CRATES_entries_def)
    show "sorted (map tl ?es)" by (simp only: t sorted_sort)
    show "mset ?es = mset (map (\<lambda>c. TAB # crate_entry c) (filter is_FileCrate crates))"
      by (simp only: CRATES_entries_def mset_sort)
    show "mset (map tl ?es) = mset (map crate_entry (filter is_FileCrate crates))"
      by (simp only: t mset_sort)
  qed
next
  assume p: "mset crates' = mset crates"
  then have "mset (map (\<lambda>c. TAB # crate_entry c) (filter is_FileCrate crates')) =
             mset (map (\<lambda>c. TAB # crate_entry c) (filter is_FileCrate crates))"
    by simp
  then have e: "CRATES_entries crates' = CRATES_entries crates"
    unfolding CRATES_entries_def by (metis properties_for_sort sorted_sort mset_sort)
  have "(crates' = []) = (crates = [])" using p by (metis mset_zero_iff)
  then show "get_CRATES crates' = get_CRATES crates" by (simp add: get_CRATES_def e)
qed

theorem get_CRATES_sorted_permutation_witness:
  "mset [GitCrate ''g'' ''g.crate'' ''r'', FileCrate ''a'' ''a-2.crate'' ''a@2'',
         FileCrate ''b'' ''b-1.crate'' ''b@1''] =
   mset [FileCrate ''b'' ''b-1.crate'' ''b@1'', GitCrate ''g'' ''g.crate'' ''r'',
         FileCrate ''a'' ''a-2.crate'' ''a@2''] \<and>
   get_CRATES [GitCrate ''g'' ''g.crate'' ''r'', FileCrate ''a'' ''a-2.crate'' ''a@2'',
         FileCrate ''b'' ''b-1.crate'' ''b@1''] =
   get_CRATES [FileCrate ''b'' ''b-1.crate'' ''b@1'', GitCrate ''g'' ''g.crate'' ''r'',
         FileCrate ''a'' ''a-2.crate'' ''a@2''] \<and>
   get_CRATES [FileCrate ''b'' ''b-1.crate'' ''b@1'', GitCrate ''g'' ''g.crate'' ''r'',
         FileCrate ''a'' ''a-2.crate'' ''a@2''] =
     [NL] @ join [NL] [TAB # ''a@2'', TAB # ''b@1''] @ [NL] \<and>
   sorted [TAB # ''a@2'', TAB # ''b@1'']"
proof -
  have v: "get_CRATES [FileCrate ''b'' ''b-1.crate'' ''b@1'', GitCrate ''g'' ''g.crate'' ''r'',
         FileCrate ''a'' ''a-2.crate'' ''a@2''] =
     [NL] @ join [NL] [TAB # ''a@2'', TAB # ''b@1''] @ [NL]"
    by code_simp
  have s: "sorted [TAB # ''a@2'', TAB # ''b@1'']" by code_simp
  show ?thesis
    using get_CRATES_sorted_permutation
      [of "[FileCrate ''b'' ''b-1.crate'' ''b@1'', GitCrate ''g'' ''g.crate'' ''r'',
            FileCrate ''a'' ''a-2.crate'' ''a@2'']"
          "[GitCrate ''g'' ''g.crate'' ''r'', FileCrate ''a'' ''a-2.crate'' ''a@2'',
            FileCrate ''b'' ''b-1.crate'' ''b@1'']"] v s
    by simp
qed

text \<open>
  C10. A non-empty crate list without file crates (so: git crates only) gives two newline
  characters, not the single newline of the empty list.
\<close>

theorem get_CRATES_only_git:
  "crates \<noteq> [] \<Longrightarrow> \<forall>c \<in> set crates. is_GitCrate c \<Longrightarrow>
     get_CRATES crates = [NL, NL] \<and> get_CRATES crates \<noteq> get_CRATES []"
proof -
  assume ne: "crates \<noteq> []" and g: "\<forall>c \<in> set crates. is_GitCrate c"
  have "filter is_FileCrate crates = []"
    using g by (auto simp: filter_empty_conv dest!: bspec)
  then show ?thesis using ne by (simp add: get_CRATES_def CRATES_entries_def)
qed

theorem get_CRATES_only_git_witness:
  "[GitCrate ''g'' ''g.crate'' ''r''] \<noteq> [] \<and>
   list_all is_GitCrate [GitCrate ''g'' ''g.crate'' ''r''] \<and>
   get_CRATES [GitCrate ''g'' ''g.crate'' ''r''] = [NL, NL] \<and>
   get_CRATES [GitCrate ''g'' ''g.crate'' ''r''] \<noteq> get_CRATES []"
  using get_CRATES_only_git [of "[GitCrate ''g'' ''g.crate'' ''r'']"]
  by (simp add: get_CRATES_def)

section \<open>The body of a region is matched lazily\<close>

lemma lazy_body_first_close:
  "lazy_body q s = Some k \<Longrightarrow> first_close q s k"
proof (induction s arbitrary: k)
  case Nil
  then show ?case by simp
next
  case (Cons c cs)
  show ?case
  proof (cases "c = q \<and> at_eol cs")
    case True
    then have "k = 0" using Cons.prems by simp
    then show ?thesis using True by (simp add: first_close_def)
  next
    case False
    then obtain k' where k': "lazy_body q cs = Some k'" "k = Suc k'"
      using Cons.prems by auto
    have fc: "first_close q cs k'" using Cons.IH k'(1) by simp
    show ?thesis
      unfolding first_close_def k'(2)
    proof (intro conjI allI impI)
      fix j assume "j < Suc k'"
      then show "\<not> ((c # cs) ! j = q \<and> at_eol (drop (Suc j) (c # cs)))"
        using False fc by (cases j) (auto simp: first_close_def)
    qed (use fc in \<open>auto simp: first_close_def\<close>)
  qed
qed

lemma first_close_lazy_body:
  "first_close q s k \<Longrightarrow> lazy_body q s = Some k"
proof (induction s arbitrary: k)
  case Nil
  then show ?case by (simp add: first_close_def)
next
  case (Cons c cs)
  show ?case
  proof (cases k)
    case 0
    then show ?thesis using Cons.prems by (simp add: first_close_def)
  next
    case (Suc k')
    have n0: "\<not> (c = q \<and> at_eol cs)"
      using Cons.prems Suc unfolding first_close_def by (metis drop0 drop_Suc_Cons nth_Cons_0 zero_less_Suc)
    have "first_close q cs k'"
      using Cons.prems Suc unfolding first_close_def
      by (metis Suc_less_eq drop_Suc_Cons length_Cons nth_Cons_Suc)
    then have "lazy_body q cs = Some k'" by (rule Cons.IH)
    then show ?thesis using n0 Suc by simp
  qed
qed

lemma startswith_append [simp]: "startswith p (p @ s)"
  by (induction p) auto

text \<open>
  C2 (as amended). The value body of each region is matched non-greedily across lines.
  Each of the four patterns matches at the opening delimiter exactly when the text after
  it has an occurrence of the closing delimiter (the opening quote character; the closing
  parenthesis for GIT_CRATES) at the end of a line or of the document, and the body then
  ends at the first such occurrence, whatever lines it spans.
\<close>

theorem region_body_lazy:
  assumes "q = SQ \<or> q = DQ" and "ws = [NL] \<or> ws = [NL, NL]"
  shows "((CRATES_RE True (''CRATES='' @ q # s) = Some m) =
            (\<exists>k. first_close q s k \<and>
                 m = \<lparr>m_len = length ''CRATES='' + 1 + k + 1, g_start = ''CRATES='' @ [q],
                       g_delim = [q], g_ws = []\<rparr>)) \<and>
         ((CRATE_LICENSE_RE True (CRATE_LICENSE_lit @ q # s) = Some m) =
            (\<exists>k. first_close q s k \<and>
                 m = \<lparr>m_len = length CRATE_LICENSE_lit + 1 + k + 1,
                       g_start = CRATE_LICENSE_lit @ [q], g_delim = [q], g_ws = []\<rparr>)) \<and>
         ((GIT_CRATES_APPEND_RE True (''CRATES='' @ q # s) = Some m) =
            (\<exists>k. first_close q s k \<and>
                 m = \<lparr>m_len = length ''CRATES='' + 1 + k + 1,
                       g_start = ''CRATES='' @ q # take (Suc k) s, g_delim = [], g_ws = []\<rparr>)) \<and>
         ((GIT_CRATES_RE bol (ws @ ''declare -A GIT_CRATES=('' @ s) = Some m) =
            (\<exists>k. first_close (CHR '')'') s k \<and>
                 m = \<lparr>m_len = length ws + length ''declare -A GIT_CRATES=('' + k + 1,
                       g_start = [], g_delim = [], g_ws = ws\<rparr>))"
proof (intro conjI)
  have lb: "(lazy_body c t = Some k) = first_close c t k" for c t k
    using lazy_body_first_close first_close_lazy_body by blast
  show "(CRATES_RE True (''CRATES='' @ q # s) = Some m) =
           (\<exists>k. first_close q s k \<and>
                m = \<lparr>m_len = length ''CRATES='' + 1 + k + 1, g_start = ''CRATES='' @ [q],
                      g_delim = [q], g_ws = []\<rparr>)"
    using assms(1) by (auto simp: CRATES_RE_def match_assignment_def lb)
  show "(CRATE_LICENSE_RE True (CRATE_LICENSE_lit @ q # s) = Some m) =
           (\<exists>k. first_close q s k \<and>
                m = \<lparr>m_len = length CRATE_LICENSE_lit + 1 + k + 1, g_start = CRATE_LICENSE_lit @ [q],
                      g_delim = [q], g_ws = []\<rparr>)"
    using assms(1) by (auto simp: CRATE_LICENSE_RE_def match_assignment_def lb)
  show "(GIT_CRATES_APPEND_RE True (''CRATES='' @ q # s) = Some m) =
            (\<exists>k. first_close q s k \<and>
                 m = \<lparr>m_len = length ''CRATES='' + 1 + k + 1,
                       g_start = ''CRATES='' @ q # take (Suc k) s, g_delim = [], g_ws = []\<rparr>)"
    using assms(1) by (auto simp: GIT_CRATES_APPEND_RE_def match_assignment_def lb)
  have md: "(match_declare w (''declare -A GIT_CRATES=('' @ s) = Some m) =
           (\<exists>k. first_close (CHR '')'') s k \<and>
                m = \<lparr>m_len = length w + length ''declare -A GIT_CRATES=('' + k + 1,
                      g_start = [], g_delim = [], g_ws = w\<rparr>)" for w
    by (auto simp: match_declare_def lb)
  have nd: "match_declare w (NL # t) = None" for w t
    by (simp add: match_declare_def NL_def)
  have d: "CHR ''d'' \<noteq> NL" by (simp add: NL_def)
  from assms(2) show "(GIT_CRATES_RE bol (ws @ ''declare -A GIT_CRATES=('' @ s) = Some m) =
           (\<exists>k. first_close (CHR '')'') s k \<and>
                m = \<lparr>m_len = length ws + length ''declare -A GIT_CRATES=('' + k + 1,
                      g_start = [], g_delim = [], g_ws = ws\<rparr>)"
  proof
    assume w: "ws = [NL]"
    have "GIT_CRATES_RE bol (ws @ ''declare -A GIT_CRATES=('' @ s) =
          match_declare [NL] (''declare -A GIT_CRATES=('' @ s)"
      using d by (simp add: GIT_CRATES_RE_def w)
    then show ?thesis using md [of "[NL]"] w by simp
  next
    assume w: "ws = [NL, NL]"
    have "GIT_CRATES_RE bol (ws @ ''declare -A GIT_CRATES=('' @ s) =
          (case match_declare [NL, NL] (''declare -A GIT_CRATES=('' @ s) of
             Some m \<Rightarrow> Some m | None \<Rightarrow> None)"
      by (simp add: GIT_CRATES_RE_def w nd split: option.splits)
    also have "\<dots> = match_declare [NL, NL] (''declare -A GIT_CRATES=('' @ s)"
      by (simp split: option.splits)
    finally show ?thesis using md [of "[NL, NL]"] w by simp
  qed
qed

text \<open>
  C2 (as stated) fails: with two candidate closing quotes at ends of lines, the match of
  \<open>CRATES_RE\<close> ends at the first one (a body of length 1, a match of length 10), where
  the greedy body of the spec's wording has length 7.
\<close>

theorem greedy_counterexample:
  "CRATES_RE True (''CRATES='' @ [DQ] @ ''a'' @ [DQ, NL] @ ''X='' @ [DQ] @ ''b'' @ [DQ]) =
     Some \<lparr>m_len = 10, g_start = ''CRATES='' @ [DQ], g_delim = [DQ], g_ws = []\<rparr> \<and>
   lazy_body DQ (''a'' @ [DQ, NL] @ ''X='' @ [DQ] @ ''b'' @ [DQ]) = Some 1 \<and>
   greedy_body DQ (''a'' @ [DQ, NL] @ ''X='' @ [DQ] @ ''b'' @ [DQ]) = Some 7"
  by (simp add: CRATES_RE_def match_assignment_def DQ_def NL_def SQ_def)

theorem region_body_lazy_witness:
  "first_close DQ ([NL, TAB] @ ''a@1'' @ [NL, DQ, NL] @ ''X='' @ [DQ] @ ''b'' @ [DQ]) 6 \<and>
   CRATES_RE True (''CRATES='' @ DQ # [NL, TAB] @ ''a@1'' @ [NL, DQ, NL] @ ''X='' @ [DQ] @ ''b'' @ [DQ]) =
     Some \<lparr>m_len = 15, g_start = ''CRATES='' @ [DQ], g_delim = [DQ], g_ws = []\<rparr> \<and>
   first_close (CHR '')'') ([NL, TAB] @ ''[g]=x'' @ [NL] @ '')'' @ [NL] @ ''f()'') 8 \<and>
   GIT_CRATES_RE True ([NL, NL] @ ''declare -A GIT_CRATES=('' @
       [NL, TAB] @ ''[g]=x'' @ [NL] @ '')'' @ [NL] @ ''f()'') =
     Some \<lparr>m_len = 34, g_start = [], g_delim = [], g_ws = [NL, NL]\<rparr>"
proof -
  let ?s = "[NL, TAB] @ ''a@1'' @ [NL, DQ, NL] @ ''X='' @ [DQ] @ ''b'' @ [DQ]"
  let ?t = "[NL, TAB] @ ''[g]=x'' @ [NL] @ '')'' @ [NL] @ ''f()''"
  have "lazy_body DQ ?s = Some 6" by code_simp
  then have f1: "first_close DQ ?s 6" by (rule lazy_body_first_close)
  have "lazy_body (CHR '')'') ?t = Some 8" by code_simp
  then have f2: "first_close (CHR '')'') ?t 8" by (rule lazy_body_first_close)
  have q: "DQ = SQ \<or> DQ = DQ" and w: "[NL, NL] = [NL] \<or> [NL, NL] = [NL, NL]" by simp_all
  have m1: "CRATES_RE True (''CRATES='' @ DQ # ?s) =
     Some \<lparr>m_len = 15, g_start = ''CRATES='' @ [DQ], g_delim = [DQ], g_ws = []\<rparr>"
    using region_body_lazy [OF q w, of ?s
        "\<lparr>m_len = 15, g_start = ''CRATES='' @ [DQ], g_delim = [DQ], g_ws = []\<rparr>", THEN conjunct1] f1
    by auto
  have m2: "GIT_CRATES_RE True ([NL, NL] @ ''declare -A GIT_CRATES=('' @ ?t) =
     Some \<lparr>m_len = 34, g_start = [], g_delim = [], g_ws = [NL, NL]\<rparr>"
    using region_body_lazy [OF q w, of ?t
        "\<lparr>m_len = 34, g_start = [], g_delim = [], g_ws = [NL, NL]\<rparr>" True,
        THEN conjunct2, THEN conjunct2, THEN conjunct2] f2
    by auto
  show ?thesis using f1 f2 m1 m2 by simp
qed

section \<open>Substitution: counts and errors\<close>

lemma re_sub_count:
  "re_sub re repl bol s = Inr (out, n) \<Longrightarrow> n = match_count re bol s"
proof (induction re repl bol s arbitrary: out n rule: re_sub.induct)
  case (1 re repl bol)
  then show ?case by simp
next
  case (2 re repl bol c cs)
  show ?case
  proof (cases "re bol (c # cs)")
    case None
    then show ?thesis using 2(1) [OF None] 2(3)
      by (auto split: sum.splits prod.splits)
  next
    case (Some m)
    then show ?thesis using 2(2) [OF Some] 2(3)
      by (auto split: sum.splits prod.splits)
  qed
qed

lemma re_sub_total:
  "(\<And>m. \<exists>r. repl m = Inr r) \<Longrightarrow> \<exists>out. re_sub re repl bol s = Inr (out, match_count re bol s)"
proof (induction re repl bol s rule: re_sub.induct)
  case (1 re repl bol)
  then show ?case by simp
next
  case (2 re repl bol c cs)
  show ?case
  proof (cases "re bol (c # cs)")
    case None
    then show ?thesis using 2(1) [OF None] 2(3) by auto
  next
    case (Some m)
    obtain r where r: "repl m = Inr r" using 2(3) by blast
    show ?thesis using 2(2) [OF Some r] 2(3) Some r by auto
  qed
qed

lemma re_sub_error:
  "re_sub re repl bol s = Inl e \<Longrightarrow> \<exists>m. repl m = Inl e"
proof (induction re repl bol s rule: re_sub.induct)
  case (1 re repl bol)
  then show ?case by simp
next
  case (2 re repl bol c cs)
  show ?case
  proof (cases "re bol (c # cs)")
    case None
    then show ?thesis using 2(1) [OF None] 2(3)
      by (auto split: sum.splits prod.splits)
  next
    case (Some m)
    show ?thesis
    proof (cases "repl m")
      case (Inl e')
      then show ?thesis using 2(3) Some by auto
    next
      case (Inr r)
      then show ?thesis using 2(2) [OF Some Inr] 2(3) Some
        by (auto split: sum.splits prod.splits)
    qed
  qed
qed

lemma str_nat_small [simp]: "str_nat 0 = ''0''" "str_nat (Suc 0) = ''1''"
  by (simp_all add: str_nat.simps)

lemma CountingSubst_Inr [simp]: "CountingSubst (Inr r) m = Inr (g_start m @ r @ g_delim m)"
  by (simp add: CountingSubst_def)

lemma CountingSubst_Inl [simp]: "CountingSubst (Inl e) m = Inl e"
  by (simp add: CountingSubst_def)

lemma GitCratesSubst_Inr:
  "GitCratesSubst (Inr r) m = Inr (if lstrip r \<noteq> [] then g_ws m @ lstrip r else [])"
  by (simp add: GitCratesSubst_def)

lemma CountingSubst_error: "CountingSubst x m = Inl e \<Longrightarrow> x = Inl e"
  by (cases x) auto

lemma re_sub_raises:
  "(\<And>m. repl m = Inl e) \<Longrightarrow>
     re_sub re repl bol s = (if match_count re bol s = 0 then Inr (s, 0) else Inl e)"
proof (induction s arbitrary: bol)
  case Nil
  then show ?case by simp
next
  case (Cons c cs)
  show ?case
  proof (cases "re bol (c # cs)")
    case None
    then show ?thesis using Cons.IH [OF Cons.prems, of "c = NL"] by simp
  next
    case (Some m)
    then show ?thesis using Cons.prems by simp
  qed
qed

lemma update_ebuild_passes:
  "\<exists>ebuild1 ebuild2 g.
     sub_CRATES crates crate_tarball ebuild = Inr (ebuild1, match_count CRATES_RE True ebuild) \<and>
     sub_GIT_CRATES crates dd ebuild1 = Inr (ebuild2, g)"
proof -
  obtain e1 where e1: "sub_CRATES crates crate_tarball ebuild =
      Inr (e1, match_count CRATES_RE True ebuild)"
    using re_sub_total [of "CountingSubst (Inr (CRATES_value crates crate_tarball))" CRATES_RE True ebuild]
    by (auto simp: sub_CRATES_def)
  obtain e2 g where "sub_GIT_CRATES crates dd e1 = Inr (e2, g)"
    using re_sub_total [of "GitCratesSubst (Inr (get_GIT_CRATES crates dd))" GIT_CRATES_RE True e1]
    by (auto simp: GitCratesSubst_Inr sub_GIT_CRATES_def)
  then show ?thesis using e1 by blast
qed

lemma update_ebuild_count_error:
  assumes "match_count CRATES_RE True ebuild \<noteq> 1"
    and "sub_CRATES crates crate_tarball ebuild = Inr (ebuild1, n)"
    and "sub_GIT_CRATES crates dd ebuild1 = Inr (ebuild2, g)"
  shows "update_ebuild ext ebuild pkg_meta crates dd crate_license crate_tarball license_overrides =
           (case get_crate_LICENSE ext crates dd license_overrides of
              Inl e \<Rightarrow>
                if match_count CRATE_LICENSE_RE True ebuild2 = 0
                then Inl (RuntimeError (''CRATES= matched '' @
                            str_nat (match_count CRATES_RE True ebuild) @ '' times, 1 expected''))
                else Inl e
            | Inr l \<Rightarrow>
                Inl (RuntimeError (''CRATES= matched '' @
                       str_nat (match_count CRATES_RE True ebuild) @ '' times, 1 expected'')))"
proof -
  have n: "n = match_count CRATES_RE True ebuild"
    using assms(2) re_sub_count unfolding sub_CRATES_def by blast
  show ?thesis
  proof (cases "get_crate_LICENSE ext crates dd license_overrides")
    case (Inl e)
    have "re_sub CRATE_LICENSE_RE (CountingSubst (Inl e)) True ebuild2 =
            (if match_count CRATE_LICENSE_RE True ebuild2 = 0 then Inr (ebuild2, 0) else Inl e)"
      by (rule re_sub_raises) simp
    then show ?thesis using Inl assms n
      by (simp add: update_ebuild_def sub_CRATES_def sub_GIT_CRATES_def assert_count_def)
  next
    case (Inr l)
    obtain e3 k where "re_sub CRATE_LICENSE_RE (CountingSubst (Inr l)) True ebuild2 = Inr (e3, k)"
      using re_sub_total [of "CountingSubst (Inr l)" CRATE_LICENSE_RE True ebuild2] by auto
    then show ?thesis using Inr assms n
      by (simp add: update_ebuild_def sub_CRATES_def sub_GIT_CRATES_def assert_count_def)
  qed
qed

text \<open>
  C4 (as amended). When the CRATES pattern matches a number of times other than one (zero
  times when the document has no CRATES assignment), \<open>update_ebuild\<close> returns no document.
  It raises the error of \<open>get_crate_LICENSE\<close> when that computation raises and the
  LICENSE+= pattern matches in the document as the CRATES and GIT_CRATES substitutions
  left it (it is then called for the first match, before any count is checked). In every
  other case it raises the count error that names \<open>CRATES=\<close>, the count found and the
  count expected.
\<close>

theorem update_ebuild_CRATES_count:
  assumes "match_count CRATES_RE True ebuild \<noteq> 1"
  shows "\<exists>ebuild1 ebuild2 g.
           sub_CRATES crates crate_tarball ebuild = Inr (ebuild1, match_count CRATES_RE True ebuild) \<and>
           sub_GIT_CRATES crates dd ebuild1 = Inr (ebuild2, g) \<and>
           update_ebuild ext ebuild pkg_meta crates dd crate_license crate_tarball license_overrides =
             (case get_crate_LICENSE ext crates dd license_overrides of
                Inl e \<Rightarrow>
                  if match_count CRATE_LICENSE_RE True ebuild2 = 0
                  then Inl (RuntimeError (''CRATES= matched '' @
                              str_nat (match_count CRATES_RE True ebuild) @ '' times, 1 expected''))
                  else Inl e
              | Inr l \<Rightarrow>
                  Inl (RuntimeError (''CRATES= matched '' @
                         str_nat (match_count CRATES_RE True ebuild) @ '' times, 1 expected'')))"
proof -
  from update_ebuild_passes [of crates crate_tarball ebuild dd]
  obtain ebuild1 ebuild2 g where
    p: "sub_CRATES crates crate_tarball ebuild = Inr (ebuild1, match_count CRATES_RE True ebuild)"
      "sub_GIT_CRATES crates dd ebuild1 = Inr (ebuild2, g)"
    by blast
  from update_ebuild_count_error [OF assms p] p show ?thesis by blast
qed

theorem update_ebuild_CRATES_count_witness:
  "match_count CRATES_RE True ''EAPI=8'' \<noteq> 1 \<and>
   update_ebuild example_ext ''EAPI=8'' example_pkg_meta [] example_distdir True None Map.empty =
     Inl (RuntimeError ''CRATES= matched 0 times, 1 expected'') \<and>
   match_count CRATES_RE True ''LICENSE='' \<noteq> 1 \<and>
   match_count CRATE_LICENSE_RE True ''LICENSE='' = 0 \<and>
   update_ebuild example_ext ''LICENSE='' example_pkg_meta [FileCrate ''a'' ''a-1.crate'' ''a@1'']
       broken_distdir True None Map.empty =
     Inl (RuntimeError ''CRATES= matched 0 times, 1 expected'')"
proof -
  have c: "match_count CRATES_RE True ''EAPI=8'' = 0"
    by (simp add: CRATES_RE_def match_assignment_def NL_def)
  have l: "get_crate_LICENSE example_ext [] example_distdir Map.empty = Inr []"
    by code_simp
  have c2: "match_count CRATES_RE True ''LICENSE='' = 0"
    by (simp add: CRATES_RE_def match_assignment_def NL_def)
  have s1: "sub_CRATES [FileCrate ''a'' ''a-1.crate'' ''a@1''] None ''LICENSE='' = Inr (''LICENSE='', 0)"
    by code_simp
  have s2: "sub_GIT_CRATES [FileCrate ''a'' ''a-1.crate'' ''a@1''] broken_distdir ''LICENSE='' =
      Inr (''LICENSE='', 0)"
    by code_simp
  have c3: "match_count CRATE_LICENSE_RE True ''LICENSE='' = 0"
    by code_simp
  have l2: "get_crate_LICENSE example_ext [FileCrate ''a'' ''a-1.crate'' ''a@1''] broken_distdir
      Map.empty = Inl (RuntimeError ''a/Cargo.toml not found in a-1.crate'')"
    by code_simp
  have u1: "update_ebuild example_ext ''EAPI=8'' example_pkg_meta [] example_distdir True None
      Map.empty = Inl (RuntimeError ''CRATES= matched 0 times, 1 expected'')"
    using update_ebuild_CRATES_count [of "''EAPI=8''" "[]" None example_distdir example_ext
        example_pkg_meta True Map.empty] c l
    by auto
  have u2: "update_ebuild example_ext ''LICENSE='' example_pkg_meta
      [FileCrate ''a'' ''a-1.crate'' ''a@1''] broken_distdir True None Map.empty =
      Inl (RuntimeError ''CRATES= matched 0 times, 1 expected'')"
    using update_ebuild_CRATES_count [of "''LICENSE=''" "[FileCrate ''a'' ''a-1.crate'' ''a@1'']"
        None broken_distdir example_ext example_pkg_meta True Map.empty] c2 s1 s2 c3 l2
    by auto
  show ?thesis using c c2 c3 u1 u2 by simp
qed

text \<open>
  C4 (as stated) fails: a document without a CRATES assignment but with the crate licence
  block, updated for a crate whose archive has no regular file \<open>Cargo.toml\<close>, raises the
  error of \<open>get_license_from_crate\<close>, not the count error.
\<close>

theorem update_ebuild_CRATES_count_counterexample:
  "match_count CRATES_RE True (CRATE_LICENSE_lit @ [DQ, DQ]) = 0 \<and>
   update_ebuild example_ext (CRATE_LICENSE_lit @ [DQ, DQ]) example_pkg_meta
       [FileCrate ''a'' ''a-1.crate'' ''a@1''] broken_distdir True None Map.empty =
     Inl (RuntimeError ''a/Cargo.toml not found in a-1.crate'') \<and>
   update_ebuild example_ext (CRATE_LICENSE_lit @ [DQ, DQ]) example_pkg_meta
       [FileCrate ''a'' ''a-1.crate'' ''a@1''] broken_distdir True None Map.empty \<noteq>
     Inl (RuntimeError ''CRATES= matched 0 times, 1 expected'')"
proof -
  have c: "match_count CRATES_RE True (CRATE_LICENSE_lit @ [DQ, DQ]) = 0"
    by (simp add: CRATE_LICENSE_lit_def CRATES_RE_def match_assignment_def NL_def)
  have u: "update_ebuild example_ext (CRATE_LICENSE_lit @ [DQ, DQ]) example_pkg_meta
       [FileCrate ''a'' ''a-1.crate'' ''a@1''] broken_distdir True None Map.empty =
     Inl (RuntimeError ''a/Cargo.toml not found in a-1.crate'')"
    by code_simp
  show ?thesis using c u by simp
qed

section \<open>The CRATES value of an empty crate list and of a tarball\<close>

text \<open>
  C8. The CRATES value of the empty crate list is a single newline. Rendering with the
  empty crate list, and rendering any crate list with \<open>crate_tarball\<close> set, gives that
  single newline as the CRATES value: the document that \<open>get_ebuild\<close> returns has it
  between the quotes of CRATES.
\<close>

theorem CRATES_value_empty_or_tarball:
  "get_CRATES [] = [NL] \<and>
   (crates = [] \<or> crate_tarball \<noteq> None \<longrightarrow>
      CRATES_value crates crate_tarball = [NL] \<and>
      (get_ebuild ext pkg_meta crates dd crate_license crate_tarball license_overrides = Inr doc \<longrightarrow>
         (\<exists>descr home pkg_license crate_licenses.
            doc = template_head (today_year ext) (version ext) @ [NL] @
                  template_rest crate_license (get_GIT_CRATES crates dd) descr home
                    (case crate_tarball of None \<Rightarrow> [] | Some t \<Rightarrow> EBUILD_TEMPLATE_CRATE_TARBALL t)
                    pkg_license crate_licenses)))"
  by (auto simp: get_CRATES_def CRATES_value_def get_ebuild_def split: sum.splits)

theorem CRATES_value_empty_or_tarball_witness:
  "CRATES_value [] None = [NL] \<and>
   (\<exists>doc descr home pkg_license crate_licenses.
       get_ebuild example_ext example_pkg_meta [] example_distdir True None Map.empty = Inr doc \<and>
       doc = template_head 2023 ''0.6'' @ [NL] @
             template_rest True (get_GIT_CRATES [] example_distdir) descr home [] pkg_license
               crate_licenses) \<and>
   CRATES_value [FileCrate ''a'' ''a-1.crate'' ''a@1''] (Some ''crates.tar.xz'') = [NL] \<and>
   (\<exists>doc descr home pkg_license crate_licenses.
       get_ebuild example_ext example_pkg_meta [FileCrate ''a'' ''a-1.crate'' ''a@1'']
         example_distdir True (Some ''crates.tar.xz'') Map.empty = Inr doc \<and>
       doc = template_head 2023 ''0.6'' @ [NL] @
             template_rest True (get_GIT_CRATES [FileCrate ''a'' ''a-1.crate'' ''a@1''] example_distdir)
               descr home (EBUILD_TEMPLATE_CRATE_TARBALL ''crates.tar.xz'') pkg_license
               crate_licenses)"
proof -
  have "case get_ebuild example_ext example_pkg_meta [] example_distdir True None Map.empty of
          Inl _ \<Rightarrow> False | Inr _ \<Rightarrow> True"
    by code_simp
  then obtain doc0 where d0: "get_ebuild example_ext example_pkg_meta [] example_distdir True None
      Map.empty = Inr doc0"
    by (auto split: sum.splits)
  have "case get_ebuild example_ext example_pkg_meta [FileCrate ''a'' ''a-1.crate'' ''a@1'']
       example_distdir True (Some ''crates.tar.xz'') Map.empty of Inl _ \<Rightarrow> False | Inr _ \<Rightarrow> True"
    by code_simp
  then obtain doc where d: "get_ebuild example_ext example_pkg_meta [FileCrate ''a'' ''a-1.crate'' ''a@1'']
       example_distdir True (Some ''crates.tar.xz'') Map.empty = Inr doc"
    by (auto split: sum.splits)
  have e: "today_year example_ext = 2023" "version example_ext = ''0.6''"
    by (simp_all add: example_ext_def)
  have p0: "CRATES_value [] None = [NL] \<and>
   (\<exists>doc descr home pkg_license crate_licenses.
       get_ebuild example_ext example_pkg_meta [] example_distdir True None Map.empty = Inr doc \<and>
       doc = template_head 2023 ''0.6'' @ [NL] @
             template_rest True (get_GIT_CRATES [] example_distdir) descr home [] pkg_license
               crate_licenses)"
    using CRATES_value_empty_or_tarball [of "[]" None example_ext example_pkg_meta example_distdir
        True Map.empty doc0] d0 e
    by auto
  have p1: "CRATES_value [FileCrate ''a'' ''a-1.crate'' ''a@1''] (Some ''crates.tar.xz'') = [NL] \<and>
   (\<exists>doc descr home pkg_license crate_licenses.
       get_ebuild example_ext example_pkg_meta [FileCrate ''a'' ''a-1.crate'' ''a@1'']
         example_distdir True (Some ''crates.tar.xz'') Map.empty = Inr doc \<and>
       doc = template_head 2023 ''0.6'' @ [NL] @
             template_rest True (get_GIT_CRATES [FileCrate ''a'' ''a-1.crate'' ''a@1''] example_distdir)
               descr home (EBUILD_TEMPLATE_CRATE_TARBALL ''crates.tar.xz'') pkg_license
               crate_licenses)"
    using CRATES_value_empty_or_tarball [of "[FileCrate ''a'' ''a-1.crate'' ''a@1'']"
        "Some ''crates.tar.xz''" example_ext example_pkg_meta example_distdir True Map.empty doc] d e
    by auto
  show ?thesis using p0 p1 by blast
qed

section \<open>The crate licences\<close>




lemma get_crate_LICENSE_alt:
  "get_crate_LICENSE ext crates dd ov =
     (case crate_license_list crates dd ov of
        Inl e \<Rightarrow> Inl e
      | Inr ls \<Rightarrow>
          render_simplified ext (map_sum id (map_option (simplify ext))
                  (parse ext (combine_licenses (set_iter ext (contributed ls))))))"
  by (simp add: get_crate_LICENSE_def contributed_def render_simplified_def
      split: sum.splits option.splits)

lemma render_simplified_set_iter [simp]:
  "render_simplified (ext\<lparr>set_iter := f\<rparr>) r = render_simplified ext r"
  by (simp add: render_simplified_def split: sum.splits option.splits)

text \<open>
  C9. When no crate contributes a licence string (the crate list is empty, or every
  contribution is \<open>None\<close>), \<open>get_crate_LICENSE\<close> returns the empty string. The licence
  library is taken as the spec describes it: the empty combined string parses to nothing.
\<close>

theorem get_crate_LICENSE_empty_set:
  assumes "parses_empty ext" and "set_iteration (set_iter ext)"
    and "crate_license_list crates dd license_overrides = Inr ls"
    and "\<forall>l \<in> set ls. l = None"
  shows "get_crate_LICENSE ext crates dd license_overrides = Inr []"
proof -
  have "filter (\<lambda>l. l \<noteq> None) ls = []" using assms(4) by (simp add: filter_empty_conv)
  then have c: "contributed ls = []" by (simp add: contributed_def)
  have "mset (set_iter ext []) = mset ([] :: string list)"
    using assms(2) unfolding set_iteration_def by (metis distinct.simps(1))
  then have "set_iter ext [] = []" by simp
  then show ?thesis
    using assms(1,3) c
    by (simp add: get_crate_LICENSE_alt parses_empty_def combine_licenses_def render_simplified_def)
qed









lemma example_ext_parses_empty: "parses_empty example_ext"
  by (simp add: parses_empty_def example_ext_def license_words_def)

lemma set_iteration_id: "set_iteration (\<lambda>xs. xs)"
  by (simp add: set_iteration_def)


theorem get_crate_LICENSE_empty_set_witness:
  "parses_empty example_ext \<and> set_iteration (set_iter example_ext) \<and>
   crate_license_list [FileCrate ''u'' ''u-1.crate'' ''u@1''] example_distdir Map.empty = Inr [None] \<and>
   get_crate_LICENSE example_ext [FileCrate ''u'' ''u-1.crate'' ''u@1''] example_distdir Map.empty = Inr []"
proof -
  have i: "set_iteration (set_iter example_ext)"
    using set_iteration_id by (simp add: example_ext_def)
  have l: "crate_license_list [FileCrate ''u'' ''u-1.crate'' ''u@1''] example_distdir Map.empty = Inr [None]"
    by code_simp
  show ?thesis
    using get_crate_LICENSE_empty_set [OF example_ext_parses_empty i l] example_ext_parses_empty i l
    by simp
qed


section \<open>Substitution with no match and with one match\<close>



section \<open>The shape of a match\<close>








lemma assert_count_Inr: "(assert_count n desc k = Inr u) = (n = k)"
  by (simp add: assert_count_def)

section \<open>The shape of an assignment match\<close>





section \<open>Substitutions with one match\<close>











section \<open>Removing the GIT\_CRATES block\<close>




section \<open>Appending the GIT\_CRATES block\<close>




end
